theory Spec2Isabelle
  imports Main "HOL-Library.Sublist"
begin

section \<open>Python strings and lists\<close>

text \<open>
  A Python \<open>str\<close> is modelled as a \<open>string\<close> whose characters are code points below 256.
  The built-in methods that \<open>main.py\<close> calls are written out as recursive functions.
\<close>

type_synonym grid = "string list list"

text \<open>\<open>str.isspace\<close> on one character: the white space that \<open>str.split()\<close> and
  \<open>str.strip()\<close> recognise.\<close>

definition isspace :: "char \<Rightarrow> bool" where
  "isspace c = (c \<in> set [CHR 0x09, CHR 0x0A, CHR 0x0B, CHR 0x0C, CHR 0x0D,
                           CHR 0x1C, CHR 0x1D, CHR 0x1E, CHR 0x1F, CHR 0x20,
                           CHR 0x85, CHR 0xA0])"

text \<open>\<open>s.split()\<close>: the maximal runs of characters that are not white space; the second
  argument is the word read so far.\<close>

fun split_acc :: "string \<Rightarrow> string \<Rightarrow> string list" where
  "split_acc [] w = (if w = [] then [] else [w])"
| "split_acc (c # cs) w =
     (if isspace c then (if w = [] then split_acc cs [] else w # split_acc cs [])
      else split_acc cs (w @ [c]))"

definition split :: "string \<Rightarrow> string list" where
  "split s = split_acc s []"

text \<open>\<open>s.split(sep)\<close> for a separator of one character: one field more than there are separators.\<close>

fun split_sep_acc :: "char \<Rightarrow> string \<Rightarrow> string \<Rightarrow> string list" where
  "split_sep_acc sep [] w = [w]"
| "split_sep_acc sep (c # cs) w =
     (if c = sep then w # split_sep_acc sep cs [] else split_sep_acc sep cs (w @ [c]))"

definition split_sep :: "char \<Rightarrow> string \<Rightarrow> string list" where
  "split_sep sep s = split_sep_acc sep s []"

text \<open>\<open>s.split(sep, 1)\<close>: at most one split, at the first separator.\<close>

definition split_1 :: "char \<Rightarrow> string \<Rightarrow> string list" where
  "split_1 sep s =
     (if sep \<in> set s
      then [takeWhile (\<lambda>c. c \<noteq> sep) s, tl (dropWhile (\<lambda>c. c \<noteq> sep) s)]
      else [s])"

text \<open>\<open>s.strip()\<close>.\<close>

definition strip :: "string \<Rightarrow> string" where
  "strip s = rev (dropWhile isspace (rev (dropWhile isspace s)))"

text \<open>\<open>s.lower()\<close>: the upper-case letters below 256 are \<open>A\<close> to \<open>Z\<close> and 0xC0 to 0xDE
  without 0xD7; each has its lower-case form 32 places further.\<close>

definition lower_char :: "char \<Rightarrow> char" where
  "lower_char c =
     (let n = (of_char c :: nat)
      in if (65 \<le> n \<and> n \<le> 90) \<or> (192 \<le> n \<and> n \<le> 222 \<and> n \<noteq> 215)
         then char_of (n + 32) else c)"

definition lower :: "string \<Rightarrow> string" where
  "lower s = map lower_char s"

text \<open>\<open>sep.join(xs)\<close>.\<close>

fun join :: "string \<Rightarrow> string list \<Rightarrow> string" where
  "join sep [] = []"
| "join sep [x] = x"
| "join sep (x # y # ys) = x @ sep @ join sep (y # ys)"

text \<open>\<open>xs.index(x)\<close>: the first position of \<open>x\<close>; Python raises \<open>ValueError\<close> when there is
  none, here \<open>None\<close>.\<close>

fun index :: "'a list \<Rightarrow> 'a \<Rightarrow> nat option" where
  "index [] x = None"
| "index (y # ys) x = (if y = x then Some 0 else map_option Suc (index ys x))"

text \<open>\<open>str(n)\<close> for a natural number.\<close>

fun str_nat :: "nat \<Rightarrow> string" where
  "str_nat n =
     (if n < 10 then [char_of (48 + n)] else str_nat (n div 10) @ [char_of (48 + n mod 10)])"

text \<open>A dict with string keys keeps the order in which keys were first inserted; assigning to
  a key that is present replaces its value in place.\<close>

fun dict_set :: "(string \<times> 'v) list \<Rightarrow> string \<Rightarrow> 'v \<Rightarrow> (string \<times> 'v) list" where
  "dict_set [] k v = [(k, v)]"
| "dict_set ((k', v') # d) k v = (if k' = k then (k, v) # d else (k', v') # dict_set d k v)"

text \<open>The apostrophe of the messages.\<close>

definition quoted :: "string \<Rightarrow> string" where
  "quoted s = [CHR 0x27] @ s @ [CHR 0x27]"

section \<open>Exceptions\<close>

text \<open>The exceptions that \<open>main.py\<close> tells apart, each with its message \<open>str(e)\<close>.\<close>

datatype exn =
    SpreadsheetNotFound string
  | APIError string
  | IndexError string
  | ValueError string
  | OtherException string

fun str :: "exn \<Rightarrow> string" where
  "str (SpreadsheetNotFound m) = m"
| "str (APIError m) = m"
| "str (IndexError m) = m"
| "str (ValueError m) = m"
| "str (OtherException m) = m"

text \<open>What a block of statements does: it raises, it returns a string to the caller of the
  tool, or it falls through with a value.\<close>

datatype 'a outcome = Raise exn | Return string | Continue 'a

text \<open>Sequencing of blocks: a raise or a return ends the sequence.\<close>

fun and_then :: "'a outcome \<Rightarrow> ('a \<Rightarrow> 'b outcome) \<Rightarrow> 'b outcome" where
  "and_then (Raise e) f = Raise e"
| "and_then (Return m) f = Return m"
| "and_then (Continue x) f = f x"

section \<open>Python values\<close>

text \<open>The values that the tools return as lists and dicts, and the values that \<open>eval\<close> may
  yield; \<open>PyOther\<close> stands for every value of another type.\<close>

datatype pyval =
    PyStr string
  | PyInt int
  | PyList "pyval list"
  | PyDict "(string \<times> pyval) list"
  | PyOther

section \<open>The backend\<close>

text \<open>
  The spreadsheet service is reached through the \<open>gspread\<close> client, which is not part of the
  repository. Its operations are parameters of the model: \<open>'w\<close> is the state of the service,
  \<open>'d\<close> the type of a block of rows handed to \<open>worksheet.update\<close>. A call that reads returns
  an exception or a value and leaves the state as it is; a call that writes returns the state
  after it, together with the exception it raised, if any. A spreadsheet is named by its key,
  a worksheet by the key and its title.
\<close>

record spreadsheet =
  sp_title :: string
  sp_id :: string
  sp_url :: string

record worksheet_info =
  ws_title :: string
  row_count :: nat
  col_count :: nat

record ('w, 'd) backend =
  GoogleSheetsClient :: "'w \<Rightarrow> exn option"
  openall :: "'w \<Rightarrow> exn + spreadsheet list"
  open_by_key :: "string \<Rightarrow> 'w \<Rightarrow> exn + spreadsheet"
  worksheets :: "string \<Rightarrow> 'w \<Rightarrow> exn + worksheet_info list"
  worksheet :: "string \<Rightarrow> string \<Rightarrow> 'w \<Rightarrow> exn + string"
  get_all_values :: "string \<Rightarrow> string \<Rightarrow> 'w \<Rightarrow> exn + grid"
  update_cell :: "string \<Rightarrow> string \<Rightarrow> nat \<Rightarrow> nat \<Rightarrow> string \<Rightarrow> 'w \<Rightarrow> exn option \<times> 'w"
  update_from_row :: "string \<Rightarrow> string \<Rightarrow> nat \<Rightarrow> 'd \<Rightarrow> 'w \<Rightarrow> exn option \<times> 'w"
  row_values :: "string \<Rightarrow> string \<Rightarrow> nat \<Rightarrow> 'w \<Rightarrow> exn + string list"

text \<open>\<open>worksheet.update(f'A{next_row}', data)\<close> is \<open>update_from_row\<close> at \<open>next_row\<close>.\<close>

section \<open>update\_sheet\_record\<close>

text \<open>Lines 381 to 388: the identifier column.\<close>

definition determine_identifier_col :: "string list \<Rightarrow> nat outcome" where
  "determine_identifier_col headers =
     (if ''id'' \<in> set headers then
        (case index headers ''id'' of
           None \<Rightarrow> Raise (ValueError (quoted ''id'' @ '' is not in list''))
         | Some i \<Rightarrow> Continue i)
      else if ''name'' \<in> set headers then
        (case index headers ''name'' of
           None \<Rightarrow> Raise (ValueError (quoted ''name'' @ '' is not in list''))
         | Some i \<Rightarrow> Continue i)
      else Return ''Error: Sheet must have either 'id' or 'name' column as identifier'')"

text \<open>Lines 390 to 398: the loop over the tokens of \<open>updates\<close>; the dictionary built so far
  is the last argument.\<close>

fun parse_updates ::
  "string list \<Rightarrow> string list \<Rightarrow> (string \<times> string) list \<Rightarrow> (string \<times> string) list outcome" where
  "parse_updates headers [] update_dict = Continue update_dict"
| "parse_updates headers (update # rest) update_dict =
     (if CHR ''='' \<in> set update then
        (case split_1 CHR ''='' update of
           [col, val] \<Rightarrow>
             if col \<in> set headers then parse_updates headers rest (dict_set update_dict col val)
             else Return (''Error: Column '' @ quoted col @ '' not found in sheet'')
         | _ \<Rightarrow> Raise (ValueError ''not enough values to unpack (expected 2, got 1)''))
      else parse_updates headers rest update_dict)"

text \<open>Lines 403 to 408: the scan of the data rows; \<open>i\<close> is the counter of \<open>enumerate\<close>, which
  starts at 2. A row without a cell in the identifier column raises.\<close>

fun find_row :: "grid \<Rightarrow> nat \<Rightarrow> string \<Rightarrow> nat \<Rightarrow> nat option outcome" where
  "find_row [] identifier_col identifier i = Continue None"
| "find_row (row # rows) identifier_col identifier i =
     (if identifier_col < length row then
        (if lower (row ! identifier_col) = lower identifier then Continue (Some i)
         else find_row rows identifier_col identifier (Suc i))
      else Raise (IndexError ''list index out of range''))"

definition identifier_type :: "string list \<Rightarrow> string" where
  "identifier_type headers = (if ''id'' \<in> set headers then ''id'' else ''name'')"

text \<open>Lines 414 to 418: one triple (row, column, value) for each item of the dictionary, in
  its order; the list built so far is the last argument.\<close>

fun prepare_updates ::
  "string list \<Rightarrow> nat \<Rightarrow> (string \<times> string) list \<Rightarrow> (nat \<times> nat \<times> string) list
     \<Rightarrow> (nat \<times> nat \<times> string) list outcome" where
  "prepare_updates headers row_index [] updates = Continue updates"
| "prepare_updates headers row_index ((col, val) # items) updates =
     (case index headers col of
        None \<Rightarrow> Raise (ValueError (quoted col @ '' is not in list''))
      | Some col_index \<Rightarrow>
          prepare_updates headers row_index items (updates @ [(row_index, col_index + 1, val)]))"

text \<open>Lines 375 to 418, everything between reading the grid and the first write: the result
  is the dictionary and the list of writes.\<close>

definition plan_update ::
  "grid \<Rightarrow> string \<Rightarrow> string \<Rightarrow> ((string \<times> string) list \<times> (nat \<times> nat \<times> string) list) outcome" where
  "plan_update all_values identifier updates =
     (if all_values = [] then Return ''Error: Sheet is empty''
      else
        let headers = hd all_values in
        and_then (determine_identifier_col headers) (\<lambda>identifier_col.
        and_then (parse_updates headers (split updates) []) (\<lambda>update_dict.
        if update_dict = [] then Return ''Error: No valid updates provided''
        else
        and_then (find_row (tl all_values) identifier_col identifier 2) (\<lambda>row_index.
        case row_index of
          None \<Rightarrow>
            Return (''Error: No record found with '' @ identifier_type headers @ '' ''
                    @ quoted identifier)
        | Some row_index \<Rightarrow>
            and_then (prepare_updates headers row_index update_dict []) (\<lambda>updates'.
            Continue (update_dict, updates'))))))"

text \<open>Lines 420 to 422: the writes, one call each, until one raises.\<close>

fun apply_updates ::
  "('w, 'd) backend \<Rightarrow> string \<Rightarrow> string \<Rightarrow> (nat \<times> nat \<times> string) list \<Rightarrow> 'w \<Rightarrow> exn option \<times> 'w" where
  "apply_updates B spreadsheet_id sheet_title [] w = (None, w)"
| "apply_updates B spreadsheet_id sheet_title ((row, col, val) # updates) w =
     (case update_cell B spreadsheet_id sheet_title row col val w of
        (Some e, w') \<Rightarrow> (Some e, w')
      | (None, w') \<Rightarrow> apply_updates B spreadsheet_id sheet_title updates w')"

definition updated_message :: "string list \<Rightarrow> string \<Rightarrow> (string \<times> string) list \<Rightarrow> string" where
  "updated_message headers identifier update_dict =
     ''Successfully updated record with '' @ identifier_type headers @ '' '' @ quoted identifier
     @ '' with: '' @ join '', '' (map (\<lambda>(k, v). k @ ''='' @ v) update_dict)"

text \<open>The tool: the text it returns and the state of the backend after it. Every exception is
  caught at line 427.\<close>

definition update_sheet_record ::
  "('w, 'd) backend \<Rightarrow> string \<Rightarrow> string \<Rightarrow> string \<Rightarrow> string \<Rightarrow> 'w \<Rightarrow> string \<times> 'w" where
  "update_sheet_record B spreadsheet_id sheet_title identifier updates w =
     (case GoogleSheetsClient B w of Some e \<Rightarrow> (''Error: '' @ str e, w) | None \<Rightarrow>
      case open_by_key B spreadsheet_id w of Inl e \<Rightarrow> (''Error: '' @ str e, w) | Inr _ \<Rightarrow>
      case worksheet B spreadsheet_id sheet_title w of Inl e \<Rightarrow> (''Error: '' @ str e, w) | Inr _ \<Rightarrow>
      case get_all_values B spreadsheet_id sheet_title w of
        Inl e \<Rightarrow> (''Error: '' @ str e, w)
      | Inr all_values \<Rightarrow>
          (case plan_update all_values identifier updates of
             Raise e \<Rightarrow> (''Error: '' @ str e, w)
           | Return m \<Rightarrow> (m, w)
           | Continue (update_dict, updates') \<Rightarrow>
               (case apply_updates B spreadsheet_id sheet_title updates' w of
                  (Some e, w') \<Rightarrow> (''Error: '' @ str e, w')
                | (None, w') \<Rightarrow> (updated_message (hd all_values) identifier update_dict, w'))))"

section \<open>A sheet of the backend\<close>

text \<open>
  Modelled from the spec: the tabular backend itself is an external service. Section 3 of the
  spec describes what the core needs of it: a sheet owns a grid, an ordered sequence of rows,
  each an ordered sequence of string cells, addressed by (row, column) counted from 1; reading
  a sheet returns that grid; a write replaces the addressed cells and nothing else. The model
  below holds one sheet, to which every key and title resolve, and never fails. A row or a
  column beyond the grid is created by the write that addresses it.
\<close>

definition write_row :: "nat \<Rightarrow> string list \<Rightarrow> grid \<Rightarrow> grid" where
  "write_row row cells g =
     (let g' = g @ replicate (row - length g) []
      in g'[row - 1 := cells @ drop (length cells) (g' ! (row - 1))])"

fun write_rows :: "nat \<Rightarrow> grid \<Rightarrow> grid \<Rightarrow> grid" where
  "write_rows row [] g = g"
| "write_rows row (cells # rest) g = write_rows (Suc row) rest (write_row row cells g)"

definition write_cell :: "nat \<Rightarrow> nat \<Rightarrow> string \<Rightarrow> grid \<Rightarrow> grid" where
  "write_cell row col val g =
     (let g' = g @ replicate (row - length g) [];
          r = g' ! (row - 1);
          r' = r @ replicate (col - length r) []
      in g'[row - 1 := r'[col - 1 := val]])"

definition sheet_backend :: "('d \<Rightarrow> grid option) \<Rightarrow> (grid, 'd) backend" where
  "sheet_backend rows_of =
     \<lparr> GoogleSheetsClient = (\<lambda>g. None),
       openall = (\<lambda>g. Inr []),
       open_by_key = (\<lambda>key g. Inr \<lparr> sp_title = [], sp_id = key, sp_url = [] \<rparr>),
       worksheets = (\<lambda>key g. Inr []),
       worksheet = (\<lambda>key title g. Inr title),
       get_all_values = (\<lambda>key title g. Inr g),
       update_cell = (\<lambda>key title row col val g.
          if row = 0 \<or> col = 0 then (Some (APIError ''Invalid cell address''), g)
          else (None, write_cell row col val g)),
       update_from_row = (\<lambda>key title row d g.
          case rows_of d of
            None \<Rightarrow> (Some (APIError ''Invalid values''), g)
          | Some rows \<Rightarrow>
              if row = 0 then (Some (APIError ''Invalid range''), g)
              else (None, write_rows row rows g)),
       row_values = (\<lambda>key title row g.
          Inr (if 0 < row \<and> row \<le> length g then g ! (row - 1) else [])) \<rparr>"

section \<open>The client\<close>

text \<open>The methods of \<open>GoogleSheetsClient\<close>. Log lines are left out. The handlers of lines
  143 to 153 and 172 to 182 turn an exception into the text stored under \<open>error\<close>.\<close>

definition error_text :: "exn \<Rightarrow> string" where
  "error_text e =
     (case e of
        SpreadsheetNotFound m \<Rightarrow>
          ''Spreadsheet not found. Please check the ID and sharing permissions.''
      | APIError m \<Rightarrow> ''API Error: '' @ m
      | _ \<Rightarrow> str e)"



text \<open>Lines 155 to 182. The dict returned has the key \<open>error\<close>, or the keys \<open>title\<close> and
  \<open>data\<close>; a key that is absent is \<open>None\<close> here.\<close>

record sheet_data =
  d_error :: "string option"
  d_title :: "string option"
  d_data :: "grid option"

definition get_sheet_data :: "('w, 'd) backend \<Rightarrow> string \<Rightarrow> string \<Rightarrow> 'w \<Rightarrow> sheet_data" where
  "get_sheet_data B spreadsheet_id sheet_title w =
     (case open_by_key B spreadsheet_id w of
        Inl e \<Rightarrow> \<lparr> d_error = Some (error_text e), d_title = None, d_data = None \<rparr>
      | Inr sp \<Rightarrow>
          (case worksheet B spreadsheet_id sheet_title w of
             Inl e \<Rightarrow> \<lparr> d_error = Some (error_text e), d_title = None, d_data = None \<rparr>
           | Inr title \<Rightarrow>
               (case get_all_values B spreadsheet_id sheet_title w of
                  Inl e \<Rightarrow> \<lparr> d_error = Some (error_text e), d_title = None, d_data = None \<rparr>
                | Inr values \<Rightarrow> \<lparr> d_error = None, d_title = Some title, d_data = Some values \<rparr>)))"

text \<open>Lines 184 to 205.\<close>

definition format_sheet_data :: "sheet_data \<Rightarrow> string" where
  "format_sheet_data data =
     (case d_error data of
        Some m \<Rightarrow> ''Error: '' @ m
      | None \<Rightarrow>
          (case d_data data of
             None \<Rightarrow> ''No data found in the sheet''
           | Some rows \<Rightarrow>
               if rows = [] then ''No data found in the sheet''
               else if rows = [] then ''Sheet is empty''
               else
                 let header = join '' | '' (hd rows);
                     separator = replicate (length header) CHR ''-''
                 in join [CHR 0x0A] ([header, separator] @ map (join '' | '') (tl rows))))"

text \<open>Lines 222 to 238: every exception is caught and turned into \<open>False\<close>.\<close>

definition client_add_data_to_sheet ::
  "('w, 'd) backend \<Rightarrow> string \<Rightarrow> string \<Rightarrow> 'd \<Rightarrow> 'w \<Rightarrow> bool \<times> 'w" where
  "client_add_data_to_sheet B spreadsheet_id sheet_title data w =
     (case open_by_key B spreadsheet_id w of Inl e \<Rightarrow> (False, w) | Inr sp \<Rightarrow>
      case worksheet B spreadsheet_id sheet_title w of Inl e \<Rightarrow> (False, w) | Inr title \<Rightarrow>
      case get_all_values B spreadsheet_id sheet_title w of
        Inl e \<Rightarrow> (False, w)
      | Inr values \<Rightarrow>
          let next_row = length values + 1
          in (case update_from_row B spreadsheet_id sheet_title next_row data w of
                (Some e, w') \<Rightarrow> (False, w')
              | (None, w') \<Rightarrow> (True, w')))"


section \<open>The other tools\<close>



definition get_sheet_content :: "('w, 'd) backend \<Rightarrow> string \<Rightarrow> string \<Rightarrow> 'w \<Rightarrow> string" where
  "get_sheet_content B spreadsheet_id sheet_title w =
     (case GoogleSheetsClient B w of
        Some e \<Rightarrow> ''Error: '' @ str e
      | None \<Rightarrow> format_sheet_data (get_sheet_data B spreadsheet_id sheet_title w))"


text \<open>
  Lines 326 to 353. Line 334 hands the payload to \<open>eval\<close>, which runs it as Python code in the
  scope of the tool. There \<open>client\<close> (line 329), \<open>spreadsheet_id\<close> and \<open>sheet_title\<close> are
  bound, so that the code can call the backend and can bind the attributes of \<open>client\<close> to
  other values. The tool uses one attribute of \<open>client\<close> after line 334, the method
  \<open>add_data_to_sheet\<close>: a call of it raises or returns a value, which line 347 takes as true or
  false, and leaves a state of the backend.
\<close>

record 'w client =
  bound_add_data_to_sheet :: "string \<Rightarrow> string \<Rightarrow> pyval list \<Rightarrow> 'w \<Rightarrow> (exn + bool) \<times> 'w"

text \<open>The client as line 329 builds it: the attribute is the method of lines 222 to 238.\<close>

definition new_client :: "('w, pyval list) backend \<Rightarrow> 'w client" where
  "new_client B =
     \<lparr> bound_add_data_to_sheet = (\<lambda>spreadsheet_id sheet_title data w.
         case client_add_data_to_sheet B spreadsheet_id sheet_title data w of
           (success, w') \<Rightarrow> (Inr success, w')) \<rparr>"

text \<open>
  \<open>eval\<close> is a parameter of the model, of the type below. From the payload, the two names,
  the client and the state of the backend it gives \<open>None\<close> when the evaluation does not
  return; otherwise it gives the exception raised or the value yielded, the client as the
  evaluation leaves it and the state of the backend as the evaluation leaves it. The
  evaluation is taken to leave the names \<open>isinstance\<close>, \<open>list\<close> and \<open>len\<close> as they are. A
  list is given by its elements.
\<close>

type_synonym 'w evaluation =
  "string \<Rightarrow> string \<Rightarrow> string \<Rightarrow> 'w client \<Rightarrow> 'w \<Rightarrow> ((exn + pyval) \<times> 'w client \<times> 'w) option"

text \<open>The comprehension of lines 337 and 341 calls \<open>strip\<close> and \<open>split\<close> on a \<open>str\<close>, which
  raise nothing.\<close>

definition csv_lines :: "string \<Rightarrow> exn + pyval list" where
  "csv_lines data_str =
     Inr (map (\<lambda>line. PyList (map PyStr (split_sep CHR '','' line)))
              (split_sep (CHR 0x0A) (strip data_str)))"

text \<open>Lines 332 to 343, after the call of \<open>eval\<close>, whose outcome is the first argument. The
  handler of line 338 catches whatever was raised.\<close>

definition parse_data_str :: "exn + pyval \<Rightarrow> string \<Rightarrow> pyval list outcome" where
  "parse_data_str evaluated data_str =
     (case evaluated of
        Inr (PyList data) \<Rightarrow> Continue data
      | _ \<Rightarrow>
          (case csv_lines data_str of
             Inr data \<Rightarrow> Continue data
           | Inl e \<Rightarrow>
               Return (''Error: Invalid data format. Please provide data in the correct format ''
                       @ ''(either as a list of lists or as CSV).'')))"

text \<open>The tool: \<open>None\<close> when the evaluation does not return, otherwise the text returned and
  the state of the backend after it.\<close>

definition add_data_to_sheet ::
  "'w evaluation \<Rightarrow> ('w, pyval list) backend \<Rightarrow> string \<Rightarrow> string \<Rightarrow> string \<Rightarrow> 'w
     \<Rightarrow> (string \<times> 'w) option" where
  "add_data_to_sheet ev B spreadsheet_id sheet_title data_str w =
     (case GoogleSheetsClient B w of
        Some e \<Rightarrow> Some (''Error: '' @ str e, w)
      | None \<Rightarrow>
          (case ev data_str spreadsheet_id sheet_title (new_client B) w of
             None \<Rightarrow> None
           | Some (evaluated, client, w1) \<Rightarrow>
               (case parse_data_str evaluated data_str of
                  Raise e \<Rightarrow> Some (''Error: '' @ str e, w1)
                | Return m \<Rightarrow> Some (m, w1)
                | Continue data \<Rightarrow>
                    (case bound_add_data_to_sheet client spreadsheet_id sheet_title data w1 of
                       (Inl e, w2) \<Rightarrow> Some (''Error: '' @ str e, w2)
                     | (Inr True, w2) \<Rightarrow>
                         Some (''Successfully added '' @ str_nat (length data)
                               @ '' records to '' @ sheet_title, w2)
                     | (Inr False, w2) \<Rightarrow>
                         Some (''Error: Failed to add data to the sheet'', w2)))))"

text \<open>The rows that the sheet of the previous section takes from a list of Python values:
  lists of strings.\<close>

fun cell_of :: "pyval \<Rightarrow> string option" where
  "cell_of (PyStr s) = Some s"
| "cell_of _ = None"

fun those_list :: "'a option list \<Rightarrow> 'a list option" where
  "those_list [] = Some []"
| "those_list (x # xs) =
     (case x of None \<Rightarrow> None | Some y \<Rightarrow> map_option ((#) y) (those_list xs))"

fun row_of :: "pyval \<Rightarrow> string list option" where
  "row_of (PyList cells) = those_list (map cell_of cells)"
| "row_of _ = None"

definition rows_of :: "pyval list \<Rightarrow> grid option" where
  "rows_of data = those_list (map row_of data)"

section \<open>Notions used in the statements\<close>

text \<open>The backend answers the reading calls of a tool, in the state \<open>w\<close>, with the grid
  \<open>all_values\<close>: the client is built, the spreadsheet and the worksheet are found.\<close>

definition fetched :: "('w, 'd) backend \<Rightarrow> string \<Rightarrow> string \<Rightarrow> 'w \<Rightarrow> grid \<Rightarrow> bool" where
  "fetched B spreadsheet_id sheet_title w all_values \<longleftrightarrow>
     GoogleSheetsClient B w = None
     \<and> \<not> isl (open_by_key B spreadsheet_id w)
     \<and> \<not> isl (worksheet B spreadsheet_id sheet_title w)
     \<and> get_all_values B spreadsheet_id sheet_title w = Inr all_values"

text \<open>The pair that a token with an equals sign stands for: the text before the first equals
  sign and the text after it. The pairs of a list of tokens, in their order.\<close>

definition key_value :: "string \<Rightarrow> string \<times> string" where
  "key_value token =
     (takeWhile (\<lambda>c. c \<noteq> CHR ''='') token, tl (dropWhile (\<lambda>c. c \<noteq> CHR ''='') token))"

definition parsed_pairs :: "string list \<Rightarrow> (string \<times> string) list" where
  "parsed_pairs tokens = map key_value (filter (\<lambda>token. CHR ''='' \<in> set token) tokens)"

section \<open>Lists, dictionaries and strings\<close>

lemma index_None_iff: "index xs x = None \<longleftrightarrow> x \<notin> set xs"
  by (induction xs) auto

lemma index_Some_iff:
  "index xs x = Some i \<longleftrightarrow> i < length xs \<and> xs ! i = x \<and> (\<forall>j<i. xs ! j \<noteq> x)"
proof (induction xs arbitrary: i)
  case Nil
  then show ?case by simp
next
  case (Cons y ys)
  show ?case
  proof (cases "y = x")
    case True
    then show ?thesis by (cases i) auto
  next
    case False
    then show ?thesis
      using Cons.IH by (cases i) (auto simp: All_less_Suc2)
  qed
qed

lemma dict_set_map_of: "map_of (dict_set d k v) = (map_of d)(k \<mapsto> v)"
  by (induction d) (auto simp: fun_eq_iff)

lemma dict_set_keys:
  "map fst (dict_set d k v) = (if k \<in> fst ` set d then map fst d else map fst d @ [k])"
  by (induction d) (force simp: image_iff)+

lemma dict_set_distinct: "distinct (map fst d) \<Longrightarrow> distinct (map fst (dict_set d k v))"
  by (simp add: dict_set_keys)

lemma dict_set_nonempty: "dict_set d k v \<noteq> []"
  by (cases d) (auto split: if_splits)

lemma set_dict_set_keys: "fst ` set (dict_set d k v) = insert k (fst ` set d)"
proof -
  have "set (map fst (dict_set d k v)) = insert k (set (map fst d))"
    unfolding dict_set_keys by auto
  then show ?thesis by simp
qed

lemma fold_dict_set_keys:
  "fst ` set (fold (\<lambda>(col, val) d. dict_set d col val) ps d) = fst ` set d \<union> fst ` set ps"
proof (induction ps arbitrary: d)
  case Nil
  then show ?case by simp
next
  case (Cons p ps)
  obtain k v where p: "p = (k, v)" by (cases p)
  show ?case
    unfolding p by (simp add: Cons.IH set_dict_set_keys)
qed

lemma map_add_upd_assoc: "m(k \<mapsto> v) ++ n = m ++ ([k \<mapsto> v] ++ n)"
  by (auto simp: fun_eq_iff map_add_def split: option.splits)

lemma fold_dict_set_map_of:
  "map_of (fold (\<lambda>(col, val) d. dict_set d col val) ps d) = map_of d ++ map_of (rev ps)"
proof (induction ps arbitrary: d)
  case Nil
  then show ?case by simp
next
  case (Cons p ps)
  obtain k v where p: "p = (k, v)" by (cases p)
  have "map_of (fold (\<lambda>(col, val) d. dict_set d col val) (p # ps) d)
          = map_of (dict_set d k v) ++ map_of (rev ps)"
    by (simp add: p Cons.IH)
  also have "\<dots> = (map_of d)(k \<mapsto> v) ++ map_of (rev ps)"
    by (simp only: dict_set_map_of)
  also have "\<dots> = map_of d ++ ([k \<mapsto> v] ++ map_of (rev ps))"
    by (rule map_add_upd_assoc)
  also have "[k \<mapsto> v] ++ map_of (rev ps) = map_of (rev (p # ps))"
    by (simp add: p)
  finally show ?case .
qed

lemma fold_dict_set_distinct:
  "distinct (map fst d) \<Longrightarrow> distinct (map fst (fold (\<lambda>(col, val) d. dict_set d col val) ps d))"
  by (induction ps arbitrary: d) (auto simp: dict_set_distinct)




lemma split_acc_space:
  "isspace ch \<Longrightarrow> split_acc (ch # s) w = (if w = [] then split_acc s [] else w # split_acc s [])"
  by simp










section \<open>The steps of update\_sheet\_record\<close>

lemma update_sheet_record_fetched:
  assumes "fetched B spreadsheet_id sheet_title w all_values"
  shows "update_sheet_record B spreadsheet_id sheet_title identifier updates w =
     (case plan_update all_values identifier updates of
        Raise e \<Rightarrow> (''Error: '' @ str e, w)
      | Return m \<Rightarrow> (m, w)
      | Continue (update_dict, updates') \<Rightarrow>
          (case apply_updates B spreadsheet_id sheet_title updates' w of
             (Some e, w') \<Rightarrow> (''Error: '' @ str e, w')
           | (None, w') \<Rightarrow> (updated_message (hd all_values) identifier update_dict, w')))"
proof -
  obtain sp where sp: "open_by_key B spreadsheet_id w = Inr sp"
    using assms by (cases "open_by_key B spreadsheet_id w") (auto simp: fetched_def)
  obtain t where t: "worksheet B spreadsheet_id sheet_title w = Inr t"
    using assms by (cases "worksheet B spreadsheet_id sheet_title w") (auto simp: fetched_def)
  show ?thesis
    using assms sp t by (simp add: update_sheet_record_def fetched_def)
qed




lemma fetched_sheet_backend: "fetched (sheet_backend f) k t g g"
  by (simp add: fetched_def sheet_backend_def)


lemma parsed_pairs_Nil: "parsed_pairs [] = []"
  by (simp add: parsed_pairs_def)

lemma parsed_pairs_Cons:
  "parsed_pairs (t # ts) =
     (if CHR ''='' \<in> set t then key_value t # parsed_pairs ts else parsed_pairs ts)"
  by (simp add: parsed_pairs_def)

lemma parse_updates_spec:
  "parse_updates headers tokens d =
     (case find (\<lambda>(col, val). col \<notin> set headers) (parsed_pairs tokens) of
        Some (col, val) \<Rightarrow> Return (''Error: Column '' @ quoted col @ '' not found in sheet'')
      | None \<Rightarrow> Continue (fold (\<lambda>(col, val) d. dict_set d col val) (parsed_pairs tokens) d))"
proof (induction tokens arbitrary: d)
  case Nil
  then show ?case by (simp add: parsed_pairs_Nil)
next
  case (Cons t ts)
  show ?case
  proof (cases "CHR ''='' \<in> set t")
    case False
    then have "parsed_pairs (t # ts) = parsed_pairs ts" by (simp add: parsed_pairs_Cons)
    with False show ?thesis by (simp add: Cons.IH split: option.split)
  next
    case True
    obtain col val where kv: "key_value t = (col, val)" by (cases "key_value t")
    then have s1: "split_1 CHR ''='' t = [col, val]"
      using True by (simp add: split_1_def key_value_def)
    have "parsed_pairs (t # ts) = (col, val) # parsed_pairs ts"
      using True by (simp add: parsed_pairs_Cons kv)
    with True show ?thesis by (simp add: s1 Cons.IH split: option.split)
  qed
qed

lemma prepare_updates_spec:
  assumes "fst ` set items \<subseteq> set headers"
  shows "prepare_updates headers row_index items acc =
           Continue (acc @ map (\<lambda>(col, val). (row_index, the (index headers col) + 1, val)) items)"
  using assms
proof (induction items arbitrary: acc)
  case Nil
  then show ?case by simp
next
  case (Cons p items)
  obtain col val where p: "p = (col, val)" by (cases p)
  from Cons.prems p have "col \<in> set headers" by simp
  then obtain i where i: "index headers col = Some i"
    by (cases "index headers col") (auto simp: index_None_iff)
  from Cons.prems have "fst ` set items \<subseteq> set headers" by simp
  from Cons.IH [OF this] show ?case by (simp add: p i)
qed


lemma plan_update_Cons:
  "plan_update (headers # rows) identifier updates =
     and_then (determine_identifier_col headers) (\<lambda>identifier_col.
     and_then (parse_updates headers (split updates) []) (\<lambda>update_dict.
     if update_dict = [] then Return ''Error: No valid updates provided''
     else
     and_then (find_row rows identifier_col identifier 2) (\<lambda>row_index.
     case row_index of
       None \<Rightarrow>
         Return (''Error: No record found with '' @ identifier_type headers @ '' ''
                 @ quoted identifier)
     | Some row_index \<Rightarrow>
         and_then (prepare_updates headers row_index update_dict []) (\<lambda>updates'.
         Continue (update_dict, updates')))))"
  by (simp only: plan_update_def list.sel list.simps if_False Let_def)

lemma parse_updates_headers:
  assumes "parse_updates headers tokens [] = Continue d"
  shows "fst ` set d \<subseteq> set headers"
proof -
  let ?ps = "parsed_pairs tokens"
  from assms have n: "find (\<lambda>(col, val). col \<notin> set headers) ?ps = None"
    and d: "d = fold (\<lambda>(col, val) d. dict_set d col val) ?ps []"
    by (auto simp: parse_updates_spec split: option.splits)
  from n have "\<forall>p \<in> set ?ps. fst p \<in> set headers"
    by (auto simp: find_None_iff)
  then show ?thesis
    unfolding d fold_dict_set_keys by auto
qed

lemma plan_update_found:
  assumes "determine_identifier_col headers = Continue c"
    and "parse_updates headers (split updates) [] = Continue d" and "d \<noteq> []"
    and "find_row rows c identifier 2 = Continue (Some i)"
  shows "plan_update (headers # rows) identifier updates =
           Continue (d, map (\<lambda>(col, val). (i, the (index headers col) + 1, val)) d)"
  using assms prepare_updates_spec [OF parse_updates_headers [OF assms(2)], of i "[]"]
  by (simp add: plan_update_Cons)


lemma find_row_bounds:
  "find_row rows c identifier i = Continue (Some k) \<Longrightarrow> i \<le> k \<and> k < i + length rows"
proof (induction rows arbitrary: i)
  case Nil
  then show ?case by simp
next
  case (Cons row rows)
  show ?case
  proof (cases "c < length row \<and> lower (row ! c) \<noteq> lower identifier")
    case True
    with Cons.prems have "find_row rows c identifier (Suc i) = Continue (Some k)" by simp
    from Cons.IH [OF this] show ?thesis by simp
  next
    case False
    with Cons.prems show ?thesis by (auto split: if_splits)
  qed
qed

lemma plan_update_Continue:
  assumes "plan_update all_values identifier updates = Continue (d, writes)"
  shows "all_values \<noteq> [] \<and> d \<noteq> []
         \<and> parse_updates (hd all_values) (split updates) [] = Continue d
         \<and> (\<exists>c i. determine_identifier_col (hd all_values) = Continue c
                \<and> find_row (tl all_values) c identifier 2 = Continue (Some i)
                \<and> writes = map (\<lambda>(col, val). (i, the (index (hd all_values) col) + 1, val)) d)"
proof (cases all_values)
  case Nil
  with assms show ?thesis by (simp add: plan_update_def)
next
  case (Cons headers rows)
  note pu = assms [unfolded Cons plan_update_Cons]
  from pu obtain c where c: "determine_identifier_col headers = Continue c"
    by (cases "determine_identifier_col headers") auto
  from pu c obtain d' where d': "parse_updates headers (split updates) [] = Continue d'"
    by (cases "parse_updates headers (split updates) []") auto
  from pu c d' have ne: "d' \<noteq> []" by (auto split: if_splits)
  from pu c d' ne obtain r where r: "find_row rows c identifier 2 = Continue r"
    by (cases "find_row rows c identifier 2") auto
  from pu c d' ne r obtain i where i: "r = Some i"
    by (cases r) auto
  from plan_update_found [OF c d' ne r [unfolded i]] assms
  have "d = d'" and "writes = map (\<lambda>(col, val). (i, the (index headers col) + 1, val)) d'"
    by (auto simp: Cons)
  with c d' ne r i show ?thesis by (simp add: Cons)
qed

lemma parse_updates_dict:
  assumes "parse_updates headers tokens [] = Continue d"
  shows "d = fold (\<lambda>(col, val) d. dict_set d col val) (parsed_pairs tokens) []"
  using assms by (auto simp: parse_updates_spec split: option.splits)

section \<open>Reading tools\<close>



section \<open>Appending\<close>

lemma write_row_append: "write_row (Suc (length g)) cells g = g @ [cells]"
  by (simp add: write_row_def Let_def)

lemma write_rows_append: "write_rows (Suc (length g)) rows g = g @ rows"
proof (induction rows arbitrary: g)
  case Nil
  then show ?case by simp
next
  case (Cons r rows)
  have "write_rows (Suc (length g)) (r # rows) g = write_rows (Suc (length (g @ [r]))) rows (g @ [r])"
    by (simp add: write_row_append)
  also have "\<dots> = (g @ [r]) @ rows" by (rule Cons.IH)
  finally show ?case by simp
qed

lemma client_add_data_to_sheet_sheet:
  "client_add_data_to_sheet (sheet_backend Some) spreadsheet_id sheet_title rows g = (True, g @ rows)"
  by (simp add: client_add_data_to_sheet_def sheet_backend_def write_rows_append)











section \<open>Errors of the backend\<close>








section \<open>The claims of the specification\<close>

text \<open>
  C1. For the grid with header \<open>id\<close>, \<open>name\<close> and the rows (1, Alice) and (2, Bob), the
  identifier 2 and the update expression \<open>name=Bobby\<close>, planning yields exactly one cell
  write: row 3, column 2 (both counted from 1), value \<open>Bobby\<close>.
\<close>

theorem plan_update_bobby:
  "plan_update [[''id'', ''name''], [''1'', ''Alice''], [''2'', ''Bob'']] ''2'' ''name=Bobby''
     = Continue ([(''name'', ''Bobby'')], [(3, 2, ''Bobby'')])"
  by code_simp



text \<open>
  C3. Planning ends in one of three ways. It completes with the dictionary and the writes: then
  the grid has a header, the dictionary has exactly the columns of the pairs parsed from the
  update expression, each once and with the value of its last pair, every column is a header,
  and there is one write for each entry of the dictionary, in its order, all in one row of
  the sheet, at the column (counted from 1) of the first header equal to the entry's column,
  with the entry's value. Or it returns a message, or it raises: then there is no write, and
  the tool returns the message (or the text of the exception) and leaves the backend as it
  was. The writes of a complete plan are applied starting from the state in which the grid
  was read, one by one in the order of the plan.
\<close>

theorem plan_all_or_nothing:
  "(case plan_update all_values identifier updates of
      Continue (update_dict, writes) \<Rightarrow>
        all_values \<noteq> [] \<and> update_dict \<noteq> []
        \<and> fst ` set update_dict = fst ` set (parsed_pairs (split updates))
        \<and> distinct (map fst update_dict)
        \<and> map_of update_dict = map_of (rev (parsed_pairs (split updates)))
        \<and> fst ` set update_dict \<subseteq> set (hd all_values)
        \<and> (\<exists>row_index. 2 \<le> row_index \<and> row_index \<le> length all_values
              \<and> list_all2 (\<lambda>(col, val) (r, cl, v).
                    r = row_index \<and> v = val \<and> 1 \<le> cl \<and> cl \<le> length (hd all_values)
                    \<and> hd all_values ! (cl - 1) = col
                    \<and> (\<forall>j < cl - 1. hd all_values ! j \<noteq> col)) update_dict writes)
    | _ \<Rightarrow> True)
   \<and> (fetched B spreadsheet_id sheet_title w all_values \<longrightarrow>
        (case plan_update all_values identifier updates of
           Raise e \<Rightarrow>
             update_sheet_record B spreadsheet_id sheet_title identifier updates w
               = (''Error: '' @ str e, w)
         | Return m \<Rightarrow>
             update_sheet_record B spreadsheet_id sheet_title identifier updates w = (m, w)
         | Continue (update_dict, writes) \<Rightarrow>
             update_sheet_record B spreadsheet_id sheet_title identifier updates w
               = (case apply_updates B spreadsheet_id sheet_title writes w of
                    (Some e, w') \<Rightarrow> (''Error: '' @ str e, w')
                  | (None, w') \<Rightarrow>
                      (updated_message (hd all_values) identifier update_dict, w'))))"
proof (intro conjI impI)
  show "case plan_update all_values identifier updates of
      Continue (update_dict, writes) \<Rightarrow>
        all_values \<noteq> [] \<and> update_dict \<noteq> []
        \<and> fst ` set update_dict = fst ` set (parsed_pairs (split updates))
        \<and> distinct (map fst update_dict)
        \<and> map_of update_dict = map_of (rev (parsed_pairs (split updates)))
        \<and> fst ` set update_dict \<subseteq> set (hd all_values)
        \<and> (\<exists>row_index. 2 \<le> row_index \<and> row_index \<le> length all_values
              \<and> list_all2 (\<lambda>(col, val) (r, cl, v).
                    r = row_index \<and> v = val \<and> 1 \<le> cl \<and> cl \<le> length (hd all_values)
                    \<and> hd all_values ! (cl - 1) = col
                    \<and> (\<forall>j < cl - 1. hd all_values ! j \<noteq> col)) update_dict writes)
    | _ \<Rightarrow> True"
  proof (cases "plan_update all_values identifier updates")
    case (Continue x)
    obtain d writes where x: "x = (d, writes)" by (cases x)
    let ?h = "hd all_values"
    let ?ps = "parsed_pairs (split updates)"
    from plan_update_Continue [OF Continue [unfolded x]]
    obtain c i where ne: "all_values \<noteq> []" "d \<noteq> []"
      and pd: "parse_updates ?h (split updates) [] = Continue d"
      and fr: "find_row (tl all_values) c identifier 2 = Continue (Some i)"
      and wr: "writes = map (\<lambda>(col, val). (i, the (index ?h col) + 1, val)) d"
      by blast
    note d = parse_updates_dict [OF pd]
    have k: "fst ` set d = fst ` set ?ps"
      unfolding d fold_dict_set_keys by simp
    have di: "distinct (map fst d)"
      unfolding d by (rule fold_dict_set_distinct) simp
    have m: "map_of d = map_of (rev ?ps)"
      unfolding d fold_dict_set_map_of by simp
    note h = parse_updates_headers [OF pd]
    from find_row_bounds [OF fr] ne have b: "2 \<le> i \<and> i \<le> length all_values"
      by (cases all_values) auto
    have "\<forall>p \<in> set d.
            (\<lambda>(col, val) (r, cl, v).
                    r = i \<and> v = val \<and> 1 \<le> cl \<and> cl \<le> length ?h
                    \<and> ?h ! (cl - 1) = col
                    \<and> (\<forall>j < cl - 1. ?h ! j \<noteq> col)) p
              ((\<lambda>(col, val). (i, the (index ?h col) + 1, val)) p)"
    proof
      fix p assume pd: "p \<in> set d"
      obtain col val where p: "p = (col, val)" by (cases p)
      with pd h have "col \<in> set ?h" by force
      then obtain n where n: "index ?h col = Some n"
        by (cases "index ?h col") (auto simp: index_None_iff)
      then have "n < length ?h \<and> ?h ! n = col \<and> (\<forall>j<n. ?h ! j \<noteq> col)"
        by (simp add: index_Some_iff)
      then show "(\<lambda>(col, val) (r, cl, v).
                    r = i \<and> v = val \<and> 1 \<le> cl \<and> cl \<le> length ?h
                    \<and> ?h ! (cl - 1) = col
                    \<and> (\<forall>j < cl - 1. ?h ! j \<noteq> col)) p
              ((\<lambda>(col, val). (i, the (index ?h col) + 1, val)) p)"
        by (simp add: p n)
    qed
    then have "list_all2 (\<lambda>(col, val) (r, cl, v).
                    r = i \<and> v = val \<and> 1 \<le> cl \<and> cl \<le> length ?h
                    \<and> ?h ! (cl - 1) = col
                    \<and> (\<forall>j < cl - 1. ?h ! j \<noteq> col)) d writes"
      unfolding wr list_all2_map2 list_all2_same .
    with b have "\<exists>row_index. 2 \<le> row_index \<and> row_index \<le> length all_values
              \<and> list_all2 (\<lambda>(col, val) (r, cl, v).
                    r = row_index \<and> v = val \<and> 1 \<le> cl \<and> cl \<le> length ?h
                    \<and> ?h ! (cl - 1) = col
                    \<and> (\<forall>j < cl - 1. ?h ! j \<noteq> col)) d writes"
      by blast
    with ne k di m h show ?thesis
      unfolding Continue x by simp
  qed simp_all
next
  assume "fetched B spreadsheet_id sheet_title w all_values"
  from update_sheet_record_fetched [OF this, of "identifier" updates]
  show "case plan_update all_values identifier updates of
           Raise e \<Rightarrow>
             update_sheet_record B spreadsheet_id sheet_title identifier updates w
               = (''Error: '' @ str e, w)
         | Return m \<Rightarrow>
             update_sheet_record B spreadsheet_id sheet_title identifier updates w = (m, w)
         | Continue (update_dict, writes) \<Rightarrow>
             update_sheet_record B spreadsheet_id sheet_title identifier updates w
               = (case apply_updates B spreadsheet_id sheet_title writes w of
                    (Some e, w') \<Rightarrow> (''Error: '' @ str e, w')
                  | (None, w') \<Rightarrow>
                      (updated_message (hd all_values) identifier update_dict, w'))"
    by (simp split: outcome.splits prod.splits)
qed

theorem plan_all_or_nothing_witness:
  "plan_update [[''id'', ''name''], [''1'', ''Alice''], [''2'', ''Bob'']] ''2''
      ''name=Bobby name=Rob id=7''
     = Continue ([(''name'', ''Rob''), (''id'', ''7'')], [(3, 2, ''Rob''), (3, 1, ''7'')])
   \<and> map_of [(''name'', ''Rob''), (''id'', ''7'')]
       = map_of (rev (parsed_pairs (split ''name=Bobby name=Rob id=7'')))
   \<and> update_sheet_record (sheet_backend Some) ''key'' ''Sheet1'' ''2''
        ''name=Bobby name=Rob id=7'' [[''id'', ''name''], [''1'', ''Alice''], [''2'', ''Bob'']]
      = (''Successfully updated record with id '' @ quoted ''2'' @ '' with: name=Rob, id=7'',
         [[''id'', ''name''], [''1'', ''Alice''], [''7'', ''Rob'']])
   \<and> update_sheet_record (sheet_backend Some) ''key'' ''Sheet1'' ''2''
        ''name=Bobby zip=1'' [[''id'', ''name''], [''1'', ''Alice''], [''2'', ''Bob'']]
      = (''Error: Column '' @ quoted ''zip'' @ '' not found in sheet'',
         [[''id'', ''name''], [''1'', ''Alice''], [''2'', ''Bob'']])"
proof -
  let ?g = "[[''id'', ''name''], [''1'', ''Alice''], [''2'', ''Bob'']]"
  let ?u = "''name=Bobby name=Rob id=7''"
  let ?d = "[(''name'', ''Rob''), (''id'', ''7'')]"
  let ?w = "[(3::nat, 2::nat, ''Rob''), (3, 1, ''7'')]"
  have p: "plan_update ?g ''2'' ?u = Continue (?d, ?w)" by code_simp
  have p': "plan_update ?g ''2'' ''name=Bobby zip=1''
              = Return (''Error: Column '' @ quoted ''zip'' @ '' not found in sheet'')"
    by code_simp
  have a: "apply_updates (sheet_backend Some) ''key'' ''Sheet1'' ?w ?g
             = (None, [[''id'', ''name''], [''1'', ''Alice''], [''7'', ''Rob'']])"
    by code_simp
  have m: "updated_message (hd ?g) ''2'' ?d
             = ''Successfully updated record with id '' @ quoted ''2'' @ '' with: name=Rob, id=7''"
    by code_simp
  have fe: "fetched (sheet_backend Some) ''key'' ''Sheet1'' ?g ?g"
    by (rule fetched_sheet_backend)
  note t = plan_all_or_nothing [of ?g ?u "''2''" "sheet_backend Some" "''key''" "''Sheet1''" ?g]
  note t' = plan_all_or_nothing [of ?g "''name=Bobby zip=1''" "''2''" "sheet_backend Some"
      "''key''" "''Sheet1''" ?g]
  have 1: "map_of ?d = map_of (rev (parsed_pairs (split ?u)))"
    using t [THEN conjunct1] unfolding p by simp
  have 2: "update_sheet_record (sheet_backend Some) ''key'' ''Sheet1'' ''2'' ?u ?g
      = (''Successfully updated record with id '' @ quoted ''2'' @ '' with: name=Rob, id=7'',
         [[''id'', ''name''], [''1'', ''Alice''], [''7'', ''Rob'']])"
    using t [THEN conjunct2, THEN mp, OF fe]
    by (simp only: p outcome.case prod.case a m option.case)
  have 3: "update_sheet_record (sheet_backend Some) ''key'' ''Sheet1'' ''2'' ''name=Bobby zip=1'' ?g
      = (''Error: Column '' @ quoted ''zip'' @ '' not found in sheet'', ?g)"
    using t' [THEN conjunct2] fe unfolding p' by simp
  show ?thesis using p 1 2 3 by blast
qed





text \<open>
  C6. The code departs from the claim at the empty grid: get\_sheet\_content returns
  \<open>No data found in the sheet\<close>, not \<open>Sheet is empty\<close>. The test of line 189 holds for a grid
  without rows and returns before line 193 is reached.
\<close>

theorem empty_grid_no_data_found:
  "format_sheet_data \<lparr> d_error = None, d_title = Some ''Sheet1'', d_data = Some [] \<rparr>
     = ''No data found in the sheet''
   \<and> get_sheet_content (sheet_backend Some) ''key'' ''Sheet1'' [] = ''No data found in the sheet''
   \<and> get_sheet_content (sheet_backend Some) ''key'' ''Sheet1'' [] \<noteq> ''Sheet is empty''"
  by code_simp

text \<open>
  C7. The client's add\_data\_to\_sheet reads the sheet when it is called and hands the rows, as
  they are, to one write that starts at the row after the last row read; the write is its only
  call that changes the backend. On the sheet of the model the state after the call is the
  grid before it followed by the rows given, in their order: no row that was there is
  changed. Called on the empty sheet with one row and then again with another, it leaves the
  first row in row 1 and the second in row 2.
\<close>

theorem append_rows:
  "(\<not> isl (open_by_key B spreadsheet_id w) \<and> \<not> isl (worksheet B spreadsheet_id sheet_title w)
      \<and> get_all_values B spreadsheet_id sheet_title w = Inr vals \<longrightarrow>
      client_add_data_to_sheet B spreadsheet_id sheet_title data w =
        (case update_from_row B spreadsheet_id sheet_title (length vals + 1) data w of
           (Some e, w') \<Rightarrow> (False, w')
         | (None, w') \<Rightarrow> (True, w')))
   \<and> client_add_data_to_sheet (sheet_backend Some) spreadsheet_id sheet_title rows g
       = (True, g @ rows)
   \<and> client_add_data_to_sheet (sheet_backend Some) spreadsheet_id sheet_title [row1] []
       = (True, [row1])
   \<and> client_add_data_to_sheet (sheet_backend Some) spreadsheet_id sheet_title [row2]
        (snd (client_add_data_to_sheet (sheet_backend Some) spreadsheet_id sheet_title [row1] []))
       = (True, [row1, row2])"
proof (intro conjI impI)
  assume a: "\<not> isl (open_by_key B spreadsheet_id w) \<and> \<not> isl (worksheet B spreadsheet_id sheet_title w)
      \<and> get_all_values B spreadsheet_id sheet_title w = Inr vals"
  obtain sp where sp: "open_by_key B spreadsheet_id w = Inr sp"
    using a by (cases "open_by_key B spreadsheet_id w") auto
  obtain t where t: "worksheet B spreadsheet_id sheet_title w = Inr t"
    using a by (cases "worksheet B spreadsheet_id sheet_title w") auto
  show "client_add_data_to_sheet B spreadsheet_id sheet_title data w =
        (case update_from_row B spreadsheet_id sheet_title (length vals + 1) data w of
           (Some e, w') \<Rightarrow> (False, w')
         | (None, w') \<Rightarrow> (True, w'))"
    using a sp t by (simp add: client_add_data_to_sheet_def)
qed (simp_all add: client_add_data_to_sheet_sheet)

theorem append_rows_witness:
  "client_add_data_to_sheet (sheet_backend Some) ''key'' ''Sheet1'' [[''c'', ''d'']] [[''a'', ''b'']]
     = (case update_from_row (sheet_backend Some) ''key'' ''Sheet1'' (length [[''a'', ''b'']] + 1)
               [[''c'', ''d'']] [[''a'', ''b'']] of
           (Some e, w') \<Rightarrow> (False, w')
         | (None, w') \<Rightarrow> (True, w'))
   \<and> client_add_data_to_sheet (sheet_backend Some) ''key'' ''Sheet1'' [[''c'', ''d'']] [[''a'', ''b'']]
     = (True, [[''a'', ''b''], [''c'', ''d'']])"
proof -
  have h: "\<not> isl (open_by_key (sheet_backend Some) ''key'' [[''a'', ''b'']])
      \<and> \<not> isl (worksheet (sheet_backend Some) ''key'' ''Sheet1'' [[''a'', ''b'']])
      \<and> get_all_values (sheet_backend Some) ''key'' ''Sheet1'' [[''a'', ''b'']] = Inr [[''a'', ''b'']]"
    by (simp add: sheet_backend_def)
  note t = append_rows [where B = "sheet_backend Some" and spreadsheet_id = "''key''"
      and sheet_title = "''Sheet1''" and w = "[[''a'', ''b'']]" and vals = "[[''a'', ''b'']]"
      and data = "[[''c'', ''d'']]" and rows = "[[''c'', ''d'']]" and g = "[[''a'', ''b'']]"]
  have 1: "client_add_data_to_sheet (sheet_backend Some) ''key'' ''Sheet1'' [[''c'', ''d'']] [[''a'', ''b'']]
     = (case update_from_row (sheet_backend Some) ''key'' ''Sheet1'' (length [[''a'', ''b'']] + 1)
               [[''c'', ''d'']] [[''a'', ''b'']] of
           (Some e, w') \<Rightarrow> (False, w')
         | (None, w') \<Rightarrow> (True, w'))"
    using t [THEN conjunct1, THEN mp, OF h] .
  have 2: "client_add_data_to_sheet (sheet_backend Some) ''key'' ''Sheet1'' [[''c'', ''d'']] [[''a'', ''b'']]
     = (True, [[''a'', ''b''], [''c'', ''d'']])"
    using t [THEN conjunct2, THEN conjunct1] by simp
  show ?thesis using 1 2 by blast
qed

text \<open>
  C8. The code departs from the claim: line 334 does not read the payload as a literal, it runs
  it with \<open>eval\<close>, in the scope that holds the client. For the payload
  \<open>client.add_data_to_sheet(spreadsheet_id, sheet_title, [['pwned']])\<close> on a sheet with the one
  row \<open>a\<close>, the evaluation appends the row \<open>pwned\<close>; its value is not a list, so the payload is
  then split at its commas and appended as a second row. The payload of the claim, which
  \<open>eval\<close> refuses, is split into the rows \<open>a, b\<close> and \<open>c, d\<close>. The text of line 343 is returned
  for no payload: the empty payload, which \<open>eval\<close> refuses too, is split into one row with one
  empty cell and appended.
\<close>

theorem payload_is_run:
  "add_data_to_sheet
     (\<lambda>data_str spreadsheet_id sheet_title client w.
        case bound_add_data_to_sheet client spreadsheet_id sheet_title
               [PyList [PyStr ''pwned'']] w of
          (Inl e, w') \<Rightarrow> Some (Inl e, client, w')
        | (Inr success, w') \<Rightarrow> Some (Inr PyOther, client, w'))
     (sheet_backend rows_of) ''key'' ''Sheet1''
     ''client.add_data_to_sheet(spreadsheet_id, sheet_title, [['pwned']])'' [[''a'']]
   = Some (''Successfully added 1 records to Sheet1'',
           [[''a''], [''pwned''],
            [''client.add_data_to_sheet(spreadsheet_id'', '' sheet_title'', '' [['pwned']])'']])
   \<and> parse_data_str (Inl (OtherException ''invalid syntax'')) (''a,b'' @ [CHR 0x0A] @ ''c,d'')
     = Continue [PyList [PyStr ''a'', PyStr ''b''], PyList [PyStr ''c'', PyStr ''d'']]
   \<and> parse_data_str (Inl (OtherException ''invalid syntax'')) [] = Continue [PyList [PyStr []]]
   \<and> add_data_to_sheet
       (\<lambda>data_str spreadsheet_id sheet_title client w.
          Some (Inl (OtherException ''invalid syntax''), client, w))
       (sheet_backend rows_of) ''key'' ''Sheet1'' [] [[''a'']]
     = Some (''Successfully added 1 records to Sheet1'', [[''a''], [[]]])"
  by code_simp







end
